theory Spec2Isabelle
  imports Complex_Main
begin

section \<open>Values and errors\<close>

text \<open>
  The simulator computes with Python's \<^verbatim>\<open>Decimal\<close> and with plain integers (the histories
  of a \<^verbatim>\<open>GridBattery\<close> start as the lists \<^verbatim>\<open>[5000]\<close> and \<^verbatim>\<open>[0]\<close>). Both are embedded in
  the rationals: every quantity is a \<^typ>\<open>rat\<close> and the arithmetic is exact, which is the
  reading the specification asks for ("exact decimal types"). The rounding of a
  \<^verbatim>\<open>Decimal\<close> context to 28 significant digits is not part of the model.

  An exception is a value of \<open>py_error\<close>. \<open>EligibilityError\<close> is the name the
  specification gives to a failed selection; the source declares no such class and no
  function below produces it.
\<close>

datatype py_error =
    ValueError
  | IndexError
  | DivisionByZero
  | InvalidOperation
  | BatteryFullError
  | BatteryEmptyError
  | EligibilityError

text \<open>
  Division of decimals: a zero divisor signals \<^verbatim>\<open>DivisionByZero\<close>, and \<^verbatim>\<open>0 / 0\<close> signals
  \<^verbatim>\<open>InvalidOperation\<close>; both are raised under the default context.
\<close>

definition decimal_div :: "rat \<Rightarrow> rat \<Rightarrow> py_error + rat" where
  "decimal_div x y =
     (if y = 0 then (if x = 0 then Inl InvalidOperation else Inl DivisionByZero)
      else Inr (x / y))"

section \<open>battery.py\<close>

datatype BatteryState = CHARGING | DISCHARGING | IDLE

text \<open>
  A battery object: the attributes that \<^verbatim>\<open>Battery.__init__\<close> and
  \<^verbatim>\<open>GridBattery.__init__\<close> assign. The fields \<open>energy_capacity\<close>, \<open>power_capacity\<close> and
  \<open>state\<close> are the private attributes behind the properties of the same names, whose
  getters only read them. The two histories are values of the record: no two batteries
  share a list, as is the case for the batteries \<^verbatim>\<open>GridBattery()\<close> builds, each from
  list literals of its own.
\<close>

record battery =
  battery_id :: string
  battery_inputs :: "rat list"
  battery_outputs :: "rat list"
  energy_capacity :: rat
  power_capacity :: rat
  state :: BatteryState
  cycle_rate :: int

definition generate_battery_id :: string where
  "generate_battery_id = ''abcdfgt''"

text \<open>
  A command on a battery either returns \<^verbatim>\<open>None\<close> or raises. Its model returns the
  exception raised, if any, together with the object as the call leaves it, so that what
  a failing call did to the object is part of the result.
\<close>

type_synonym 'a command = "'a \<Rightarrow> py_error option \<times> 'a"

definition Battery_init :: "battery \<Rightarrow> rat list option \<Rightarrow> rat list option \<Rightarrow> battery" where
  "Battery_init self inputs outputs =
     self\<lparr>battery_id := generate_battery_id,
          battery_inputs := (case inputs of None \<Rightarrow> [] | Some xs \<Rightarrow> xs),
          battery_outputs := (case outputs of None \<Rightarrow> [] | Some xs \<Rightarrow> xs)\<rparr>"

definition energy_capacity_setter :: "rat \<Rightarrow> battery command" where
  "energy_capacity_setter val self =
     (if val < 0 then (Some ValueError, self)
      else (None, self\<lparr>energy_capacity := val\<rparr>))"

definition power_capacity_setter :: "rat \<Rightarrow> battery command" where
  "power_capacity_setter val self =
     (if val < 0 then (Some ValueError, self)
      else (None, self\<lparr>power_capacity := val\<rparr>))"

definition current_capacity :: "battery \<Rightarrow> rat" where
  "current_capacity self = sum_list (battery_inputs self) - sum_list (battery_outputs self)"

definition state_of_charge :: "battery \<Rightarrow> py_error + rat" where
  "state_of_charge self = decimal_div (current_capacity self) (energy_capacity self)"


definition charge :: "battery command" where
  "charge self =
     (if current_capacity self = energy_capacity self then (Some BatteryFullError, self)
      else (None, self\<lparr>state := CHARGING\<rparr>))"

definition idle :: "battery \<Rightarrow> battery" where
  "idle self = self\<lparr>state := IDLE\<rparr>"

definition discharge :: "battery command" where
  "discharge self =
     (if current_capacity self = 0 then (Some BatteryEmptyError, self)
      else (None, self\<lparr>state := DISCHARGING\<rparr>))"


text \<open>
  \<^verbatim>\<open>GridBattery.__init__\<close> runs the two validating setters, assigns \<open>state\<close> and
  \<open>cycle_rate\<close>, and then calls \<^verbatim>\<open>Battery.__init__([5000], [0])\<close>. A setter that raises
  ends the constructor there. \<open>self\<close> is the object before any attribute is assigned;
  the constructor assigns every field, so the result does not depend on it
  (lemma \<open>GridBattery_init_eq\<close>).
\<close>

definition GridBattery_init :: "battery command" where
  "GridBattery_init self =
     (case energy_capacity_setter 5000 self of
        (Some e, s1) \<Rightarrow> (Some e, s1)
      | (None, s1) \<Rightarrow>
          (case power_capacity_setter 2500 s1 of
             (Some e, s2) \<Rightarrow> (Some e, s2)
           | (None, s2) \<Rightarrow>
               (None, Battery_init (s2\<lparr>state := IDLE, cycle_rate := 0\<rparr>)
                        (Some [5000]) (Some [0]))))"

section \<open>charging_strategy.py\<close>

text \<open>
  Python's \<^verbatim>\<open>min\<close> and \<^verbatim>\<open>max\<close> over a list raise \<^verbatim>\<open>ValueError\<close> on the empty list and
  otherwise scan it from the left, replacing the value kept only by a strictly smaller
  (strictly larger) one. \<open>subscript\<close> is \<^verbatim>\<open>xs[i]\<close> for an index that is not negative.
\<close>

definition min_py :: "rat list \<Rightarrow> py_error + rat" where
  "min_py xs =
     (case xs of
        [] \<Rightarrow> Inl ValueError
      | x # ys \<Rightarrow> Inr (foldl (\<lambda>m y. if y < m then y else m) x ys))"

definition max_py :: "rat list \<Rightarrow> py_error + rat" where
  "max_py xs =
     (case xs of
        [] \<Rightarrow> Inl ValueError
      | x # ys \<Rightarrow> Inr (foldl (\<lambda>m y. if y > m then y else m) x ys))"

definition subscript :: "'a list \<Rightarrow> nat \<Rightarrow> py_error + 'a" where
  "subscript xs i = (if i < length xs then Inr (xs ! i) else Inl IndexError)"

text \<open>
  \<^verbatim>\<open>LowestToHighestChargingStrategy\<close>. The rate is a parameter of both methods and is
  read by neither. The first comprehension filters on the state; the second one filters
  the whole list on the capacity alone.
\<close>

definition LowestToHighest_determine_charge_battery ::
    "rat \<Rightarrow> battery list \<Rightarrow> py_error + battery" where
  "LowestToHighest_determine_charge_battery charge_rate batteries =
     (case min_py (map current_capacity (filter (\<lambda>b. state b \<noteq> CHARGING) batteries)) of
        Inl e \<Rightarrow> Inl e
      | Inr lowest_charge \<Rightarrow>
          subscript (filter (\<lambda>b. current_capacity b = lowest_charge) batteries) 0)"

definition LowestToHighest_determine_discharge_battery ::
    "rat \<Rightarrow> battery list \<Rightarrow> py_error + battery" where
  "LowestToHighest_determine_discharge_battery discharge_rate batteries =
     (case max_py (map current_capacity (filter (\<lambda>b. state b \<noteq> DISCHARGING) batteries)) of
        Inl e \<Rightarrow> Inl e
      | Inr highest_charge \<Rightarrow>
          subscript (filter (\<lambda>b. current_capacity b = highest_charge) batteries) 0)"

text \<open>
  \<^verbatim>\<open>RandomChargingStrategy\<close>. \<^verbatim>\<open>random.randint(a, b)\<close> returns an integer \<open>N\<close> with
  \<open>a \<le> N \<le> b\<close>, both ends included; \<open>randint a b\<close> is the set of values it can return.
  The value drawn is the first argument of the two methods, and
  \<open>Random_charge_draws\<close> and \<open>Random_discharge_draws\<close> are the draws possible for a
  given list, as the call \<^verbatim>\<open>randint(0, len(eligible_batteries))\<close> fixes them.
\<close>

definition randint :: "nat \<Rightarrow> nat \<Rightarrow> nat set" where
  "randint a b = {a..b}"

definition Random_charge_draws :: "battery list \<Rightarrow> nat set" where
  "Random_charge_draws batteries =
     randint 0 (length (filter (\<lambda>b. state b \<noteq> CHARGING) batteries))"

definition Random_determine_charge_battery :: "nat \<Rightarrow> battery list \<Rightarrow> py_error + battery" where
  "Random_determine_charge_battery N batteries =
     subscript (filter (\<lambda>b. state b \<noteq> CHARGING) batteries) N"

definition Random_discharge_draws :: "battery list \<Rightarrow> nat set" where
  "Random_discharge_draws batteries =
     randint 0 (length (filter (\<lambda>b. state b \<noteq> DISCHARGING) batteries))"

definition Random_determine_discharge_battery :: "nat \<Rightarrow> battery list \<Rightarrow> py_error + battery" where
  "Random_determine_discharge_battery N batteries =
     subscript (filter (\<lambda>b. state b \<noteq> DISCHARGING) batteries) N"

section \<open>site.py\<close>

record site =
  site_id :: string
  location :: string
  batteries :: "battery list"

definition generate_site_id :: string where
  "generate_site_id = ''Site A''"

definition Site_init :: "battery list \<Rightarrow> string \<Rightarrow> site" where
  "Site_init bs loc = \<lparr>site_id = generate_site_id, location = loc, batteries = bs\<rparr>"

text \<open>
  \<^verbatim>\<open>zip(*lists)\<close>: no list gives no tuple; otherwise a tuple of the heads is produced as
  long as every list still has one.
\<close>

function zip_star :: "'a list list \<Rightarrow> 'a list list" where
  "zip_star xss =
     (if xss = [] \<or> [] \<in> set xss then [] else map hd xss # zip_star (map tl xss))"
  by pat_completeness auto
termination
proof (relation "measure (\<lambda>xss. length (hd xss))")
  show "wf (measure (\<lambda>xss::'a list list. length (hd xss)))" by simp
next
  fix xss :: "'a list list"
  assume "\<not> (xss = [] \<or> [] \<in> set xss)"
  then have ne: "xss \<noteq> []" and "[] \<notin> set xss" by simp_all
  then have "hd xss \<noteq> []" using hd_in_set [of xss] by metis
  then show "(map tl xss, xss) \<in> measure (\<lambda>xss. length (hd xss))"
    using ne by (simp add: hd_map)
qed

declare zip_star.simps [simp del]

definition power_input :: "site \<Rightarrow> rat list" where
  "power_input self = map sum_list (zip_star (map battery_inputs (batteries self)))"

text \<open>
  \<^verbatim>\<open>Site.charge\<close> consists of its docstring: it returns \<^verbatim>\<open>None\<close> and touches nothing.
  The class has no strategy attribute and no \<^verbatim>\<open>discharge\<close> method.
\<close>

definition Site_charge :: "rat \<Rightarrow> site command" where
  "Site_charge rate self = (None, self)"

section \<open>Sample objects\<close>

text \<open>
  The concrete inputs of the evaluations below are grid batteries (energy capacity 5000,
  power capacity 2500, identifier as \<open>generate_battery_id\<close> returns it) with the
  histories and the state given.
\<close>

abbreviation grid_battery :: "rat list \<Rightarrow> rat list \<Rightarrow> BatteryState \<Rightarrow> battery" where
  "grid_battery ins outs st \<equiv>
     \<lparr>battery_id = ''abcdfgt'', battery_inputs = ins, battery_outputs = outs,
      energy_capacity = 5000, power_capacity = 2500, state = st, cycle_rate = 0\<rparr>"

section \<open>Auxiliary facts\<close>

subsection \<open>Repeated ticks\<close>



subsection \<open>Transposition by \<open>zip_star\<close>\<close>

lemma zip_star_stop: "xss = [] \<or> [] \<in> set xss \<Longrightarrow> zip_star xss = []"
  by (subst zip_star.simps) simp

lemma zip_star_step:
  "xss \<noteq> [] \<Longrightarrow> [] \<notin> set xss \<Longrightarrow> zip_star xss = map hd xss # zip_star (map tl xss)"
  by (subst zip_star.simps) simp

lemma zip_star_length_le: "xs \<in> set xss \<Longrightarrow> length (zip_star xss) \<le> length xs"
proof (induction xss arbitrary: xs rule: zip_star.induct)
  case (1 xss)
  show ?case
  proof (cases "xss = [] \<or> [] \<in> set xss")
    case True
    then show ?thesis by (simp add: zip_star_stop)
  next
    case False
    then have ne: "xss \<noteq> []" "[] \<notin> set xss" by simp_all
    from "1.prems" ne have "xs \<noteq> []" by metis
    have "tl xs \<in> set (map tl xss)" using "1.prems" by simp
    from "1.IH" [OF False this] have "length (zip_star (map tl xss)) \<le> length xs - 1"
      by simp
    with \<open>xs \<noteq> []\<close> show ?thesis
      by (cases xs) (simp_all add: zip_star_step [OF ne])
  qed
qed

lemma zip_star_length_attained:
  "xss \<noteq> [] \<Longrightarrow> \<exists>xs\<in>set xss. length (zip_star xss) = length xs"
proof (induction xss rule: zip_star.induct)
  case (1 xss)
  show ?case
  proof (cases "[] \<in> set xss")
    case True
    then show ?thesis by (auto simp: zip_star_stop intro!: bexI [of _ "[]"])
  next
    case False
    with "1.prems" have ne: "xss \<noteq> []" "[] \<notin> set xss" by simp_all
    then have "\<not> (xss = [] \<or> [] \<in> set xss)" by simp
    from "1.IH" [OF this] ne(1)
    obtain ys where ys: "ys \<in> set xss" "length (zip_star (map tl xss)) = length (tl ys)"
      by auto
    from ys(1) ne(2) have "ys \<noteq> []" by metis
    then have "length (zip_star xss) = length ys"
      using ys(2) by (cases ys) (simp_all add: zip_star_step [OF ne])
    with ys(1) show ?thesis by blast
  qed
qed

lemma zip_star_length_Min:
  assumes "xss \<noteq> []"
  shows "length (zip_star xss) = Min (set (map length xss))"
proof (rule Min_eqI [symmetric])
  show "finite (set (map length xss))" by simp
  show "\<And>y. y \<in> set (map length xss) \<Longrightarrow> length (zip_star xss) \<le> y"
    by (auto simp: zip_star_length_le)
  show "length (zip_star xss) \<in> set (map length xss)"
    using zip_star_length_attained [OF assms] by auto
qed

lemma zip_star_nth:
  "k < length (zip_star xss) \<Longrightarrow> zip_star xss ! k = map (\<lambda>xs. xs ! k) xss"
proof (induction xss arbitrary: k rule: zip_star.induct)
  case (1 xss)
  show ?case
  proof (cases "xss = [] \<or> [] \<in> set xss")
    case True
    with "1.prems" show ?thesis by (simp add: zip_star_stop)
  next
    case False
    then have ne: "xss \<noteq> []" "[] \<notin> set xss" by simp_all
    show ?thesis
    proof (cases k)
      case 0
      have "map hd xss = map (\<lambda>xs. xs ! 0) xss"
        using ne(2) by (intro map_cong refl) (metis hd_conv_nth)
      then show ?thesis by (simp add: 0 zip_star_step [OF ne])
    next
      case (Suc k')
      with "1.prems" have k': "k' < length (zip_star (map tl xss))"
        by (simp add: zip_star_step [OF ne])
      have "\<And>xs. xs \<in> set xss \<Longrightarrow> tl xs ! k' = xs ! Suc k'"
      proof -
        fix xs assume "xs \<in> set xss"
        then have "tl xs \<in> set (map tl xss)" by simp
        from zip_star_length_le [OF this] k' have "k' < length (tl xs)" by simp
        then show "tl xs ! k' = xs ! Suc k'" by (rule nth_tl)
      qed
      then have "map (\<lambda>xs. xs ! k') (map tl xss) = map (\<lambda>xs. xs ! Suc k') xss"
        by (simp add: comp_def)
      with "1.IH" [OF False k'] show ?thesis
        by (simp add: Suc zip_star_step [OF ne])
    qed
  qed
qed

subsection \<open>Selection of the first extreme element\<close>

lemma min_py_Nil: "min_py [] = Inl ValueError"
  by (simp add: min_py_def)

lemma max_py_Nil: "max_py [] = Inl ValueError"
  by (simp add: max_py_def)

lemma min_py_Min: "xs \<noteq> [] \<Longrightarrow> min_py xs = Inr (Min (set xs))"
proof -
  have f: "(\<lambda>m y. if y < m then y else m) = (\<lambda>m y. min y (m::rat))"
    by (intro ext) (simp add: min_def)
  assume "xs \<noteq> []"
  then obtain x ys where xs: "xs = x # ys" by (cases xs) auto
  have "foldl (\<lambda>m y. min y m) x ys = fold min ys x"
    by (simp add: foldl_conv_fold)
  also have "\<dots> = Min (set (x # ys))"
    by (rule Min.set_eq_fold [symmetric])
  finally show ?thesis
    unfolding xs min_py_def f by simp
qed

lemma max_py_Max: "xs \<noteq> [] \<Longrightarrow> max_py xs = Inr (Max (set xs))"
proof -
  have f: "(\<lambda>m y. if y > m then y else m) = (\<lambda>m y. max y (m::rat))"
    by (intro ext) (simp add: max_def)
  assume "xs \<noteq> []"
  then obtain x ys where xs: "xs = x # ys" by (cases xs) auto
  have "foldl (\<lambda>m y. max y m) x ys = fold max ys x"
    by (simp add: foldl_conv_fold)
  also have "\<dots> = Max (set (x # ys))"
    by (rule Max.set_eq_fold [symmetric])
  finally show ?thesis
    unfolding xs max_py_def f by simp
qed

lemma first_match:
  "\<exists>x\<in>set xs. P x \<Longrightarrow>
   \<exists>i<length xs. subscript (filter P xs) 0 = Inr (xs ! i) \<and> P (xs ! i) \<and> (\<forall>j<i. \<not> P (xs ! j))"
proof (induction xs)
  case Nil
  then show ?case by simp
next
  case (Cons x xs)
  show ?case
  proof (cases "P x")
    case True
    then show ?thesis by (intro exI [of _ 0]) (simp add: subscript_def)
  next
    case False
    with Cons.prems have "\<exists>x\<in>set xs. P x" by simp
    from Cons.IH [OF this] obtain i where i: "i < length xs"
      "subscript (filter P xs) 0 = Inr (xs ! i)" "P (xs ! i)" "\<forall>j<i. \<not> P (xs ! j)"
      by blast
    have "\<forall>j<Suc i. \<not> P ((x # xs) ! j)"
      using False i(4) by (auto simp: less_Suc_eq_0_disj)
    with i False show ?thesis
      by (intro exI [of _ "Suc i"]) simp
  qed
qed

lemma charge_all_charging:
  assumes "\<forall>b\<in>set bs. state b = CHARGING"
  shows "LowestToHighest_determine_charge_battery r bs = Inl ValueError"
proof -
  from assms have "filter (\<lambda>b. state b \<noteq> CHARGING) bs = []"
    by (simp add: filter_empty_conv)
  then show ?thesis
    by (simp add: LowestToHighest_determine_charge_battery_def min_py_Nil)
qed

lemma charge_selects:
  assumes el: "\<exists>b\<in>set bs. state b \<noteq> CHARGING"
    and tie: "\<forall>b\<in>set bs. state b = CHARGING \<longrightarrow>
       current_capacity b \<noteq> Min (set (map current_capacity (filter (\<lambda>c. state c \<noteq> CHARGING) bs)))"
  shows "\<exists>i<length bs. LowestToHighest_determine_charge_battery r bs = Inr (bs ! i) \<and>
     state (bs ! i) \<noteq> CHARGING \<and>
     (\<forall>j<length bs. state (bs ! j) \<noteq> CHARGING \<longrightarrow> current_capacity (bs ! i) \<le> current_capacity (bs ! j)) \<and>
     (\<forall>j<i. state (bs ! j) \<noteq> CHARGING \<longrightarrow> current_capacity (bs ! i) < current_capacity (bs ! j))"
proof -
  define caps where "caps = map current_capacity (filter (\<lambda>c. state c \<noteq> CHARGING) bs)"
  define m where "m = Min (set caps)"
  from el have ne: "caps \<noteq> []" by (auto simp: caps_def filter_empty_conv)
  then have "m \<in> set caps" unfolding m_def by (intro Min_in) simp_all
  then have "\<exists>b\<in>set bs. current_capacity b = m" by (auto simp: caps_def)
  from first_match [OF this] obtain i where i: "i < length bs"
    "subscript (filter (\<lambda>b. current_capacity b = m) bs) 0 = Inr (bs ! i)"
    "current_capacity (bs ! i) = m" "\<forall>j<i. current_capacity (bs ! j) \<noteq> m"
    by blast
  have res: "LowestToHighest_determine_charge_battery r bs = Inr (bs ! i)"
    using i(2) ne
    by (simp add: LowestToHighest_determine_charge_battery_def min_py_Min m_def caps_def)
  have st: "state (bs ! i) \<noteq> CHARGING"
    using tie i(1,3) unfolding m_def caps_def by (metis nth_mem)
  have le: "m \<le> current_capacity (bs ! j)" if "j < length bs" "state (bs ! j) \<noteq> CHARGING" for j
  proof -
    from that have "current_capacity (bs ! j) \<in> set caps" by (auto simp: caps_def)
    then show ?thesis unfolding m_def by (intro Min_le) simp_all
  qed
  have lt: "m < current_capacity (bs ! j)" if "j < i" "state (bs ! j) \<noteq> CHARGING" for j
  proof -
    from that(1) i(1) have "j < length bs" by simp
    from le [OF this that(2)] have "m \<le> current_capacity (bs ! j)" .
    moreover from i(4) that(1) have "current_capacity (bs ! j) \<noteq> m" by blast
    ultimately show ?thesis by simp
  qed
  show ?thesis
    using i(1,3) res st le lt by (intro exI [of _ i]) simp
qed

lemma discharge_all_discharging:
  assumes "\<forall>b\<in>set bs. state b = DISCHARGING"
  shows "LowestToHighest_determine_discharge_battery r bs = Inl ValueError"
proof -
  from assms have "filter (\<lambda>b. state b \<noteq> DISCHARGING) bs = []"
    by (simp add: filter_empty_conv)
  then show ?thesis
    by (simp add: LowestToHighest_determine_discharge_battery_def max_py_Nil)
qed

lemma discharge_selects:
  assumes el: "\<exists>b\<in>set bs. state b \<noteq> DISCHARGING"
    and tie: "\<forall>b\<in>set bs. state b = DISCHARGING \<longrightarrow>
       current_capacity b \<noteq> Max (set (map current_capacity (filter (\<lambda>c. state c \<noteq> DISCHARGING) bs)))"
  shows "\<exists>i<length bs. LowestToHighest_determine_discharge_battery r bs = Inr (bs ! i) \<and>
     state (bs ! i) \<noteq> DISCHARGING \<and>
     (\<forall>j<length bs. state (bs ! j) \<noteq> DISCHARGING \<longrightarrow> current_capacity (bs ! j) \<le> current_capacity (bs ! i)) \<and>
     (\<forall>j<i. state (bs ! j) \<noteq> DISCHARGING \<longrightarrow> current_capacity (bs ! j) < current_capacity (bs ! i))"
proof -
  define caps where "caps = map current_capacity (filter (\<lambda>c. state c \<noteq> DISCHARGING) bs)"
  define m where "m = Max (set caps)"
  from el have ne: "caps \<noteq> []" by (auto simp: caps_def filter_empty_conv)
  then have "m \<in> set caps" unfolding m_def by (intro Max_in) simp_all
  then have "\<exists>b\<in>set bs. current_capacity b = m" by (auto simp: caps_def)
  from first_match [OF this] obtain i where i: "i < length bs"
    "subscript (filter (\<lambda>b. current_capacity b = m) bs) 0 = Inr (bs ! i)"
    "current_capacity (bs ! i) = m" "\<forall>j<i. current_capacity (bs ! j) \<noteq> m"
    by blast
  have res: "LowestToHighest_determine_discharge_battery r bs = Inr (bs ! i)"
    using i(2) ne
    by (simp add: LowestToHighest_determine_discharge_battery_def max_py_Max m_def caps_def)
  have st: "state (bs ! i) \<noteq> DISCHARGING"
    using tie i(1,3) unfolding m_def caps_def by (metis nth_mem)
  have le: "current_capacity (bs ! j) \<le> m" if "j < length bs" "state (bs ! j) \<noteq> DISCHARGING" for j
  proof -
    from that have "current_capacity (bs ! j) \<in> set caps" by (auto simp: caps_def)
    then show ?thesis unfolding m_def by (intro Max_ge) simp_all
  qed
  have lt: "current_capacity (bs ! j) < m" if "j < i" "state (bs ! j) \<noteq> DISCHARGING" for j
  proof -
    from that(1) i(1) have "j < length bs" by simp
    from le [OF this that(2)] have "current_capacity (bs ! j) \<le> m" .
    moreover from i(4) that(1) have "current_capacity (bs ! j) \<noteq> m" by blast
    ultimately show ?thesis by simp
  qed
  show ?thesis
    using i(1,3) res st le lt by (intro exI [of _ i]) simp
qed

subsection \<open>Unfolding the strategies on concrete lists\<close>

lemmas eval_defs = LowestToHighest_determine_charge_battery_def
  LowestToHighest_determine_discharge_battery_def min_py_def max_py_def subscript_def
  current_capacity_def

section \<open>LowestToHighest selection\<close>

text \<open>
  Claim C1, as the code has it. \<open>determine_charge_battery\<close> raises \<open>ValueError\<close>
  (from \<^verbatim>\<open>min\<close> of an empty list) when every battery of the list is Charging, the empty
  list included. When some battery is not Charging and no Charging battery holds the
  minimum current capacity of the batteries that are not Charging, it returns the battery
  at an index \<open>i\<close> such that the battery is not Charging, no battery that is not Charging
  has a smaller current capacity, and every battery that is not Charging and stands before
  \<open>i\<close> has a strictly larger one: the first occurrence of the minimum. The same holds
  for \<open>determine_discharge_battery\<close> with Discharging for Charging and the maximum for
  the minimum. The rate plays no part.
\<close>

theorem LowestToHighest_selects_first_extreme:
  "((\<forall>b\<in>set bs. state b = CHARGING) \<longrightarrow>
      LowestToHighest_determine_charge_battery r bs = Inl ValueError) \<and>
   ((\<exists>b\<in>set bs. state b \<noteq> CHARGING) \<and>
    (\<forall>b\<in>set bs. state b = CHARGING \<longrightarrow>
       current_capacity b \<noteq>
         Min (set (map current_capacity (filter (\<lambda>c. state c \<noteq> CHARGING) bs)))) \<longrightarrow>
      (\<exists>i<length bs.
         LowestToHighest_determine_charge_battery r bs = Inr (bs ! i) \<and>
         state (bs ! i) \<noteq> CHARGING \<and>
         (\<forall>j<length bs. state (bs ! j) \<noteq> CHARGING \<longrightarrow>
            current_capacity (bs ! i) \<le> current_capacity (bs ! j)) \<and>
         (\<forall>j<i. state (bs ! j) \<noteq> CHARGING \<longrightarrow>
            current_capacity (bs ! i) < current_capacity (bs ! j)))) \<and>
   ((\<forall>b\<in>set bs. state b = DISCHARGING) \<longrightarrow>
      LowestToHighest_determine_discharge_battery r bs = Inl ValueError) \<and>
   ((\<exists>b\<in>set bs. state b \<noteq> DISCHARGING) \<and>
    (\<forall>b\<in>set bs. state b = DISCHARGING \<longrightarrow>
       current_capacity b \<noteq>
         Max (set (map current_capacity (filter (\<lambda>c. state c \<noteq> DISCHARGING) bs)))) \<longrightarrow>
      (\<exists>i<length bs.
         LowestToHighest_determine_discharge_battery r bs = Inr (bs ! i) \<and>
         state (bs ! i) \<noteq> DISCHARGING \<and>
         (\<forall>j<length bs. state (bs ! j) \<noteq> DISCHARGING \<longrightarrow>
            current_capacity (bs ! j) \<le> current_capacity (bs ! i)) \<and>
         (\<forall>j<i. state (bs ! j) \<noteq> DISCHARGING \<longrightarrow>
            current_capacity (bs ! j) < current_capacity (bs ! i))))"
proof (intro conjI impI)
  assume "\<forall>b\<in>set bs. state b = CHARGING"
  then show "LowestToHighest_determine_charge_battery r bs = Inl ValueError"
    by (rule charge_all_charging)
next
  assume "\<forall>b\<in>set bs. state b = DISCHARGING"
  then show "LowestToHighest_determine_discharge_battery r bs = Inl ValueError"
    by (rule discharge_all_discharging)
next
  assume h: "(\<exists>b\<in>set bs. state b \<noteq> CHARGING) \<and>
    (\<forall>b\<in>set bs. state b = CHARGING \<longrightarrow>
       current_capacity b \<noteq>
         Min (set (map current_capacity (filter (\<lambda>c. state c \<noteq> CHARGING) bs))))"
  show "\<exists>i<length bs.
         LowestToHighest_determine_charge_battery r bs = Inr (bs ! i) \<and>
         state (bs ! i) \<noteq> CHARGING \<and>
         (\<forall>j<length bs. state (bs ! j) \<noteq> CHARGING \<longrightarrow>
            current_capacity (bs ! i) \<le> current_capacity (bs ! j)) \<and>
         (\<forall>j<i. state (bs ! j) \<noteq> CHARGING \<longrightarrow>
            current_capacity (bs ! i) < current_capacity (bs ! j))"
    by (rule charge_selects [OF conjunct1 [OF h] conjunct2 [OF h]])
next
  assume h: "(\<exists>b\<in>set bs. state b \<noteq> DISCHARGING) \<and>
    (\<forall>b\<in>set bs. state b = DISCHARGING \<longrightarrow>
       current_capacity b \<noteq>
         Max (set (map current_capacity (filter (\<lambda>c. state c \<noteq> DISCHARGING) bs))))"
  show "\<exists>i<length bs.
         LowestToHighest_determine_discharge_battery r bs = Inr (bs ! i) \<and>
         state (bs ! i) \<noteq> DISCHARGING \<and>
         (\<forall>j<length bs. state (bs ! j) \<noteq> DISCHARGING \<longrightarrow>
            current_capacity (bs ! j) \<le> current_capacity (bs ! i)) \<and>
         (\<forall>j<i. state (bs ! j) \<noteq> DISCHARGING \<longrightarrow>
            current_capacity (bs ! j) < current_capacity (bs ! i))"
    by (rule discharge_selects [OF conjunct1 [OF h] conjunct2 [OF h]])
qed

text \<open>
  The theorem at a list of four batteries where the minimum of the eligible batteries
  occurs twice, and at two lists with no eligible battery: the conclusions fix the
  battery returned.
\<close>

theorem LowestToHighest_selects_first_extreme_witness:
  "LowestToHighest_determine_charge_battery 2500 [grid_battery [1000] [0] CHARGING] =
     Inl ValueError \<and>
   LowestToHighest_determine_discharge_battery 2500 [grid_battery [1000] [0] DISCHARGING] =
     Inl ValueError \<and>
   LowestToHighest_determine_charge_battery 2500
        [grid_battery [4000] [0] IDLE, grid_battery [1000] [0] DISCHARGING,
         grid_battery [1000] [0] IDLE, grid_battery [500] [0] CHARGING] =
      Inr (grid_battery [1000] [0] DISCHARGING) \<and>
   LowestToHighest_determine_discharge_battery 2500
        [grid_battery [4000] [0] IDLE, grid_battery [1000] [0] DISCHARGING,
         grid_battery [1000] [0] IDLE, grid_battery [500] [0] CHARGING] =
      Inr (grid_battery [4000] [0] IDLE)"
proof -
  let ?bs = "[grid_battery [4000] [0] IDLE, grid_battery [1000] [0] DISCHARGING,
         grid_battery [1000] [0] IDLE, grid_battery [500] [0] CHARGING]"
  note all = LowestToHighest_selects_first_extreme [of ?bs 2500]
  have "LowestToHighest_determine_charge_battery 2500 [grid_battery [1000] [0] CHARGING] =
      Inl ValueError"
    using LowestToHighest_selects_first_extreme [of "[grid_battery [1000] [0] CHARGING]" 2500]
    by simp
  moreover
  have "LowestToHighest_determine_discharge_battery 2500 [grid_battery [1000] [0] DISCHARGING] =
      Inl ValueError"
    using LowestToHighest_selects_first_extreme [of "[grid_battery [1000] [0] DISCHARGING]" 2500]
    by simp
  moreover
  have "LowestToHighest_determine_charge_battery 2500 ?bs = Inr (grid_battery [1000] [0] DISCHARGING)"
  proof -
    have c1: "\<exists>b\<in>set ?bs. state b \<noteq> CHARGING" by simp
    have c2: "\<forall>b\<in>set ?bs. state b = CHARGING \<longrightarrow>
         current_capacity b \<noteq>
           Min (set (map current_capacity (filter (\<lambda>c. state c \<noteq> CHARGING) ?bs)))"
      by (simp add: current_capacity_def)
    from mp [OF all [THEN conjunct2, THEN conjunct1] conjI [OF c1 c2]]
    obtain i where i: "i < length ?bs"
      "LowestToHighest_determine_charge_battery 2500 ?bs = Inr (?bs ! i)"
      "state (?bs ! i) \<noteq> CHARGING"
      "\<forall>j<length ?bs. state (?bs ! j) \<noteq> CHARGING \<longrightarrow>
         current_capacity (?bs ! i) \<le> current_capacity (?bs ! j)"
      "\<forall>j<i. state (?bs ! j) \<noteq> CHARGING \<longrightarrow>
         current_capacity (?bs ! i) < current_capacity (?bs ! j)"
      by (elim exE conjE)
    from i(1) have "i = 0 \<or> i = 1 \<or> i = 2 \<or> i = 3" by simp arith
    moreover have "i \<noteq> 0"
    proof
      assume "i = 0"
      with i(4) [rule_format, of 1] show False
        by (simp add: current_capacity_def)
    qed
    moreover have "i \<noteq> 2"
    proof
      assume "i = 2"
      with i(5) [rule_format, of 1] show False
        by (simp add: current_capacity_def)
    qed
    moreover have "i \<noteq> 3" using i(3) by auto
    ultimately have "i = 1" by simp
    with i(2) show ?thesis by simp
  qed
  moreover
  have "LowestToHighest_determine_discharge_battery 2500 ?bs = Inr (grid_battery [4000] [0] IDLE)"
  proof -
    have d1: "\<exists>b\<in>set ?bs. state b \<noteq> DISCHARGING" by simp
    have d2: "\<forall>b\<in>set ?bs. state b = DISCHARGING \<longrightarrow>
         current_capacity b \<noteq>
           Max (set (map current_capacity (filter (\<lambda>c. state c \<noteq> DISCHARGING) ?bs)))"
      by (simp add: current_capacity_def)
    from mp [OF all [THEN conjunct2, THEN conjunct2, THEN conjunct2] conjI [OF d1 d2]]
    obtain i where i: "i < length ?bs"
      "LowestToHighest_determine_discharge_battery 2500 ?bs = Inr (?bs ! i)"
      "state (?bs ! i) \<noteq> DISCHARGING"
      "\<forall>j<length ?bs. state (?bs ! j) \<noteq> DISCHARGING \<longrightarrow>
         current_capacity (?bs ! j) \<le> current_capacity (?bs ! i)"
      by (elim exE conjE)
    from i(1) have "i = 0 \<or> i = 1 \<or> i = 2 \<or> i = 3" by simp arith
    moreover have "i \<noteq> 1" using i(3) by auto
    moreover have "i \<noteq> 2"
    proof
      assume "i = 2"
      with i(4) [rule_format, of 0] show False
        by (simp add: current_capacity_def)
    qed
    moreover have "i \<noteq> 3"
    proof
      assume "i = 3"
      with i(4) [rule_format, of 0] show False
        by (simp add: current_capacity_def)
    qed
    ultimately have "i = 0" by simp
    with i(2) show ?thesis by simp
  qed
  ultimately show ?thesis by (intro conjI)
qed

text \<open>
  Claim C1 as stated fails: with no eligible battery the exception is \<open>ValueError\<close>, not
  \<open>EligibilityError\<close>.
\<close>

theorem LowestToHighest_no_eligible_raises_ValueError:
  "LowestToHighest_determine_charge_battery 2500 [grid_battery [1000] [0] CHARGING] =
     Inl ValueError \<and>
   LowestToHighest_determine_charge_battery 2500 [grid_battery [1000] [0] CHARGING] \<noteq>
     Inl EligibilityError \<and>
   LowestToHighest_determine_discharge_battery 2500 [grid_battery [1000] [0] DISCHARGING] =
     Inl ValueError \<and>
   LowestToHighest_determine_discharge_battery 2500 [grid_battery [1000] [0] DISCHARGING] \<noteq>
     Inl EligibilityError"
  by (simp add: eval_defs)

text \<open>
  No list makes either method raise \<open>EligibilityError\<close>.
\<close>

lemma LowestToHighest_never_EligibilityError:
  "LowestToHighest_determine_charge_battery r bs \<noteq> Inl EligibilityError \<and>
   LowestToHighest_determine_discharge_battery r bs \<noteq> Inl EligibilityError"
  by (auto simp: eval_defs split: list.splits sum.splits)

text \<open>
  The second comprehension does not filter on the state: a battery that is already in
  the target state and holds the extreme capacity of the eligible ones is returned when
  it stands first.
\<close>

lemma LowestToHighest_tie_with_target_state:
  "LowestToHighest_determine_charge_battery 2500
     [grid_battery [1000] [0] CHARGING, grid_battery [1000] [0] IDLE] =
     Inr (grid_battery [1000] [0] CHARGING) \<and>
   LowestToHighest_determine_discharge_battery 2500
     [grid_battery [1000] [0] DISCHARGING, grid_battery [1000] [0] IDLE] =
     Inr (grid_battery [1000] [0] DISCHARGING)"
  by (simp add: eval_defs)

section \<open>The requested rate\<close>

text \<open>
  Neither method reads the rate.
\<close>

lemma LowestToHighest_ignores_rate:
  "LowestToHighest_determine_charge_battery r bs =
     LowestToHighest_determine_charge_battery r' bs \<and>
   LowestToHighest_determine_discharge_battery r bs =
     LowestToHighest_determine_discharge_battery r' bs"
  by (simp add: LowestToHighest_determine_charge_battery_def
      LowestToHighest_determine_discharge_battery_def)

text \<open>
  Claim C2 at a concrete input. Three Idle batteries of power capacity 2500 each and a
  requested rate of 6000, which the three together cover: each method returns one
  battery, whose power capacity is below the rate. The result type holds a single
  battery and no indication of partial fulfillment.
\<close>

theorem LowestToHighest_single_battery_below_rate:
  "LowestToHighest_determine_discharge_battery 6000
     [grid_battery [3000] [0] IDLE, grid_battery [5000] [0] IDLE, grid_battery [4000] [0] IDLE] =
     Inr (grid_battery [5000] [0] IDLE) \<and>
   power_capacity (grid_battery [5000] [0] IDLE) < 6000 \<and>
   LowestToHighest_determine_charge_battery 6000
     [grid_battery [3000] [0] IDLE, grid_battery [5000] [0] IDLE, grid_battery [4000] [0] IDLE] =
     Inr (grid_battery [3000] [0] IDLE) \<and>
   power_capacity (grid_battery [3000] [0] IDLE) < 6000 \<and>
   6000 \<le> sum_list (map power_capacity
     [grid_battery [3000] [0] IDLE, grid_battery [5000] [0] IDLE, grid_battery [4000] [0] IDLE])"
  by (simp add: eval_defs)

section \<open>Site.charge\<close>

lemma Site_charge_noop: "Site_charge rate s = (None, s)"
  by (simp add: Site_charge_def)

text \<open>
  Claim C3 at a concrete input. A site with one Idle battery at capacity 1000 of 5000:
  the LowestToHighest strategy would select that battery and \<open>charge\<close> on it would
  succeed, yet \<open>Site.charge\<close> returns with the battery still Idle.
\<close>

theorem Site_charge_leaves_batteries_idle:
  "Site_charge 2500 (Site_init [grid_battery [1000] [0] IDLE] ''Leeds'') =
     (None, Site_init [grid_battery [1000] [0] IDLE] ''Leeds'') \<and>
   map state (batteries (snd (Site_charge 2500
     (Site_init [grid_battery [1000] [0] IDLE] ''Leeds'')))) = [IDLE] \<and>
   LowestToHighest_determine_charge_battery 2500 [grid_battery [1000] [0] IDLE] =
     Inr (grid_battery [1000] [0] IDLE) \<and>
   charge (grid_battery [1000] [0] IDLE) = (None, grid_battery [1000] [0] CHARGING)"
  by (simp add: Site_charge_def Site_init_def charge_def eval_defs)

section \<open>Site.power_input\<close>

text \<open>
  Claim C4, as the code has it. A site with no battery has the empty power input.
  For a site with at least one battery the power input is as long as the shortest inputs
  sequence of its batteries, hence of length \<open>n\<close> when all of them have length \<open>n\<close>,
  and its \<open>k\<close>-th element is the sum over the batteries of the \<open>k\<close>-th element of their
  inputs. Sequences of unequal length are cut to the shortest.
\<close>

theorem power_input_sums:
  "(batteries s = [] \<longrightarrow> power_input s = []) \<and>
   (batteries s \<noteq> [] \<longrightarrow>
      length (power_input s) = Min (set (map (\<lambda>b. length (battery_inputs b)) (batteries s)))) \<and>
   (batteries s \<noteq> [] \<and> (\<forall>b\<in>set (batteries s). length (battery_inputs b) = n) \<longrightarrow>
      length (power_input s) = n) \<and>
   (\<forall>k<length (power_input s).
      power_input s ! k = sum_list (map (\<lambda>b. battery_inputs b ! k) (batteries s)))"
proof (intro conjI impI allI)
  show "power_input s = []" if "batteries s = []"
    using that by (simp add: power_input_def zip_star_stop)
  show len: "length (power_input s) = Min (set (map (\<lambda>b. length (battery_inputs b)) (batteries s)))"
    if "batteries s \<noteq> []"
    using that by (simp add: power_input_def zip_star_length_Min comp_def)
  show "length (power_input s) = n"
    if "batteries s \<noteq> [] \<and> (\<forall>b\<in>set (batteries s). length (battery_inputs b) = n)"
  proof -
    from that have "set (map (\<lambda>b. length (battery_inputs b)) (batteries s)) = {n}"
      by (cases "batteries s") auto
    with that len show ?thesis by simp
  qed
  show "power_input s ! k = sum_list (map (\<lambda>b. battery_inputs b ! k) (batteries s))"
    if "k < length (power_input s)" for k
    using that by (simp add: power_input_def zip_star_nth comp_def)
qed

theorem power_input_sums_witness:
  "power_input (Site_init [] ''Leeds'') = [] \<and>
   length (power_input
     (Site_init [grid_battery [1, 2] [] CHARGING, grid_battery [10, 20] [] CHARGING] ''Leeds'')) = 2 \<and>
   power_input
     (Site_init [grid_battery [1, 2] [] CHARGING, grid_battery [10, 20] [] CHARGING] ''Leeds'') ! 0 = 11 \<and>
   power_input
     (Site_init [grid_battery [1, 2] [] CHARGING, grid_battery [10, 20] [] CHARGING] ''Leeds'') ! 1 = 22 \<and>
   length (power_input
     (Site_init [grid_battery [1, 2] [] CHARGING, grid_battery [10] [] CHARGING] ''Leeds'')) = 1"
proof -
  let ?s = "Site_init [grid_battery [1, 2] [] CHARGING, grid_battery [10, 20] [] CHARGING] ''Leeds''"
  let ?t = "Site_init [grid_battery [1, 2] [] CHARGING, grid_battery [10] [] CHARGING] ''Leeds''"
  note s = power_input_sums [of ?s 2]
  have e: "power_input (Site_init [] ''Leeds'') = []"
    using power_input_sums [of "Site_init [] ''Leeds''" 0] by (simp add: Site_init_def)
  have len: "length (power_input ?s) = 2"
    using s by (simp add: Site_init_def)
  have k0: "power_input ?s ! 0 = 11"
  proof -
    have "0 < length (power_input ?s)" by (simp add: len)
    from s [THEN conjunct2, THEN conjunct2, THEN conjunct2, rule_format, OF this]
    show ?thesis by (simp add: Site_init_def)
  qed
  have k1: "power_input ?s ! 1 = 22"
  proof -
    have "1 < length (power_input ?s)" by (simp add: len)
    from s [THEN conjunct2, THEN conjunct2, THEN conjunct2, rule_format, OF this]
    show ?thesis by (simp add: Site_init_def)
  qed
  have t: "length (power_input ?t) = 1"
    using power_input_sums [of ?t 1] by (simp add: Site_init_def)
  from e len k0 k1 t show ?thesis by (intro conjI)
qed

text \<open>
  Claim C4 as stated fails: with inputs of lengths 2 and 1 the result is the sum at the
  first index only, the second element of the longer sequence being dropped.
\<close>

theorem power_input_truncates:
  "power_input (Site_init [grid_battery [1, 2] [] CHARGING, grid_battery [10] [] CHARGING] ''Leeds'')
     = [11]"
  by (simp add: power_input_def Site_init_def zip_star.simps)

section \<open>charge and discharge\<close>

text \<open>
  Claim C5. \<open>charge\<close> raises \<open>BatteryFullError\<close> exactly when the current capacity
  equals the energy capacity, and then leaves the battery as it was; otherwise it sets
  the state to Charging, whatever the state was, and changes nothing else. \<open>discharge\<close>
  raises \<open>BatteryEmptyError\<close> exactly when the current capacity is 0, leaving the battery
  as it was, and otherwise sets the state to Discharging and changes nothing else.
\<close>

theorem charge_discharge_exact:
  "(fst (charge b) = Some BatteryFullError \<longleftrightarrow> current_capacity b = energy_capacity b) \<and>
   (current_capacity b = energy_capacity b \<longrightarrow> charge b = (Some BatteryFullError, b)) \<and>
   (current_capacity b \<noteq> energy_capacity b \<longrightarrow> charge b = (None, b\<lparr>state := CHARGING\<rparr>)) \<and>
   (fst (discharge b) = Some BatteryEmptyError \<longleftrightarrow> current_capacity b = 0) \<and>
   (current_capacity b = 0 \<longrightarrow> discharge b = (Some BatteryEmptyError, b)) \<and>
   (current_capacity b \<noteq> 0 \<longrightarrow> discharge b = (None, b\<lparr>state := DISCHARGING\<rparr>))"
  by (simp add: charge_def discharge_def)

theorem charge_discharge_exact_witness:
  "charge (grid_battery [5000] [0] DISCHARGING) =
     (Some BatteryFullError, grid_battery [5000] [0] DISCHARGING) \<and>
   discharge (grid_battery [5000] [0] IDLE) = (None, grid_battery [5000] [0] DISCHARGING) \<and>
   charge (grid_battery [4999] [0] IDLE) = (None, grid_battery [4999] [0] CHARGING) \<and>
   discharge (grid_battery [0] [0] CHARGING) =
     (Some BatteryEmptyError, grid_battery [0] [0] CHARGING)"
proof -
  have full: "current_capacity (grid_battery [5000] [0] DISCHARGING) =
      energy_capacity (grid_battery [5000] [0] DISCHARGING)"
    and nonempty: "current_capacity (grid_battery [5000] [0] IDLE) \<noteq> 0"
    and notfull: "current_capacity (grid_battery [4999] [0] IDLE) \<noteq>
      energy_capacity (grid_battery [4999] [0] IDLE)"
    and empty: "current_capacity (grid_battery [0] [0] CHARGING) = 0"
    by (simp_all add: current_capacity_def)
  show ?thesis
    using charge_discharge_exact [of "grid_battery [5000] [0] DISCHARGING"]
      charge_discharge_exact [of "grid_battery [5000] [0] IDLE"]
      charge_discharge_exact [of "grid_battery [4999] [0] IDLE"]
      charge_discharge_exact [of "grid_battery [0] [0] CHARGING"]
      full nonempty notfull empty
    by simp
qed

section \<open>increment\<close>





section \<open>The capacity setters\<close>

text \<open>
  Claim C8, as the code has it. Either setter raises \<open>ValueError\<close> on a negative value
  and leaves the object as it was. An assignment of the energy capacity that succeeds
  was of a value that is not negative, zero included, and stores that value. The power
  capacity setter stores every positive value.
\<close>

theorem capacity_setters_reject_negative:
  "(val < 0 \<longrightarrow> energy_capacity_setter val b = (Some ValueError, b)) \<and>
   (val < 0 \<longrightarrow> power_capacity_setter val b = (Some ValueError, b)) \<and>
   (fst (energy_capacity_setter val b) = None \<longrightarrow>
      0 \<le> val \<and> snd (energy_capacity_setter val b) = b\<lparr>energy_capacity := val\<rparr>) \<and>
   (0 < val \<longrightarrow> power_capacity_setter val b = (None, b\<lparr>power_capacity := val\<rparr>))"
  by (simp add: energy_capacity_setter_def power_capacity_setter_def)

theorem capacity_setters_reject_negative_witness:
  "energy_capacity_setter (- 1) (grid_battery [5000] [0] IDLE) =
     (Some ValueError, grid_battery [5000] [0] IDLE) \<and>
   power_capacity_setter (- 1) (grid_battery [5000] [0] IDLE) =
     (Some ValueError, grid_battery [5000] [0] IDLE) \<and>
   fst (energy_capacity_setter 0 (grid_battery [5000] [0] IDLE)) = None \<and>
   energy_capacity (snd (energy_capacity_setter 0 (grid_battery [5000] [0] IDLE))) = 0 \<and>
   power_capacity (snd (power_capacity_setter 100 (grid_battery [5000] [0] IDLE))) = 100"
proof -
  have ok: "fst (energy_capacity_setter 0 (grid_battery [5000] [0] IDLE)) = None"
    by (simp add: energy_capacity_setter_def)
  show ?thesis
    using capacity_setters_reject_negative [of "- 1" "grid_battery [5000] [0] IDLE"]
      capacity_setters_reject_negative [of 0 "grid_battery [5000] [0] IDLE"]
      capacity_setters_reject_negative [of 100 "grid_battery [5000] [0] IDLE"]
      ok
    by simp
qed

text \<open>
  Claim C8 as stated fails: the energy capacity 0 is accepted, after which
  \<open>energy_capacity > 0\<close> does not hold.
\<close>

theorem energy_capacity_zero_accepted:
  "energy_capacity_setter 0 (grid_battery [5000] [0] IDLE) =
     (None, (grid_battery [5000] [0] IDLE)\<lparr>energy_capacity := 0\<rparr>) \<and>
   \<not> 0 < energy_capacity (snd (energy_capacity_setter 0 (grid_battery [5000] [0] IDLE)))"
  by (simp add: energy_capacity_setter_def)

text \<open>
  The power capacity setter accepts 0 as well, under the message
  \<^verbatim>\<open>Power capacity cannot be zero\<close>.
\<close>

lemma power_capacity_zero_accepted:
  "power_capacity_setter 0 (grid_battery [5000] [0] IDLE) =
     (None, (grid_battery [5000] [0] IDLE)\<lparr>power_capacity := 0\<rparr>)"
  by (simp add: power_capacity_setter_def)

section \<open>Random selection\<close>

text \<open>
  A draw below the number of eligible batteries selects one of them.
\<close>

lemma Random_in_range_selects_eligible:
  "N < length (filter (\<lambda>b. state b \<noteq> CHARGING) bs) \<Longrightarrow>
   \<exists>b\<in>set bs. state b \<noteq> CHARGING \<and> Random_determine_charge_battery N bs = Inr b"
  using nth_mem [of N "filter (\<lambda>b. state b \<noteq> CHARGING) bs"]
  by (auto simp: Random_determine_charge_battery_def subscript_def)

text \<open>
  For every list, the number of eligible batteries is itself a possible draw, and at
  that draw the subscript raises \<open>IndexError\<close>.
\<close>

lemma Random_can_raise_IndexError:
  "length (filter (\<lambda>b. state b \<noteq> CHARGING) bs) \<in> Random_charge_draws bs \<and>
   Random_determine_charge_battery (length (filter (\<lambda>b. state b \<noteq> CHARGING) bs)) bs =
     Inl IndexError \<and>
   length (filter (\<lambda>b. state b \<noteq> DISCHARGING) bs) \<in> Random_discharge_draws bs \<and>
   Random_determine_discharge_battery (length (filter (\<lambda>b. state b \<noteq> DISCHARGING) bs)) bs =
     Inl IndexError"
  by (simp add: Random_charge_draws_def Random_discharge_draws_def randint_def
      Random_determine_charge_battery_def Random_determine_discharge_battery_def subscript_def)

text \<open>
  Claim C9 at a concrete input. One Idle battery, eligible for both methods: the draw 1
  is possible and raises \<open>IndexError\<close>.
\<close>

theorem Random_draw_out_of_range:
  "1 \<in> Random_charge_draws [grid_battery [1000] [0] IDLE] \<and>
   Random_determine_charge_battery 1 [grid_battery [1000] [0] IDLE] = Inl IndexError \<and>
   1 \<in> Random_discharge_draws [grid_battery [1000] [0] IDLE] \<and>
   Random_determine_discharge_battery 1 [grid_battery [1000] [0] IDLE] = Inl IndexError"
  by (simp add: Random_charge_draws_def Random_discharge_draws_def randint_def
      Random_determine_charge_battery_def Random_determine_discharge_battery_def subscript_def)

section \<open>The fresh grid battery\<close>

lemma GridBattery_init_eq:
  "GridBattery_init (self :: battery) =
     (None, \<lparr>battery_id = ''abcdfgt'', battery_inputs = [5000], battery_outputs = [0],
             energy_capacity = 5000, power_capacity = 2500, state = IDLE,
             cycle_rate = 0\<rparr>)"
  by (simp add: GridBattery_init_def energy_capacity_setter_def power_capacity_setter_def
      Battery_init_def generate_battery_id_def)

text \<open>
  Claim C10. Constructing a \<^verbatim>\<open>GridBattery\<close> never raises, and the object it yields is
  Idle with inputs \<open>[5000]\<close> and outputs \<open>[0]\<close>; hence its current capacity and its
  energy capacity are both 5000 and its state of charge is 1. On that object \<open>charge\<close>
  raises \<open>BatteryFullError\<close> and leaves it as it is, while \<open>discharge\<close> returns
  normally and puts it in state Discharging.
\<close>

theorem GridBattery_fresh_full_idle:
  "fst (GridBattery_init self) = None \<and>
   battery_inputs (snd (GridBattery_init self)) = [5000] \<and>
   battery_outputs (snd (GridBattery_init self)) = [0] \<and>
   state (snd (GridBattery_init self)) = IDLE \<and>
   current_capacity (snd (GridBattery_init self)) = 5000 \<and>
   energy_capacity (snd (GridBattery_init self)) = 5000 \<and>
   state_of_charge (snd (GridBattery_init self)) = Inr 1 \<and>
   charge (snd (GridBattery_init self)) = (Some BatteryFullError, snd (GridBattery_init self)) \<and>
   discharge (snd (GridBattery_init self)) =
     (None, (snd (GridBattery_init self))\<lparr>state := DISCHARGING\<rparr>)"
  by (simp add: GridBattery_init_eq current_capacity_def state_of_charge_def
      decimal_div_def charge_def discharge_def)

end
